theory Spec2Isabelle
  imports Complex_Main
begin

section \<open>JavaScript values used by the analyzers and the aggregator\<close>

text \<open>
  The source computes with JavaScript numbers. The model computes with exact rationals
  and adds the special values that a division can produce: \<open>0 / 0\<close> is \<open>NaN\<close>, a
  non-zero number divided by zero is an infinity. The rounding error of binary floating
  point is not modelled; every comparison with \<open>NaN\<close> is false, as in JavaScript.
\<close>

datatype jsnum = NaN | NegInfinity | Fin rat | PosInfinity

definition js_div :: "rat \<Rightarrow> rat \<Rightarrow> jsnum" where
  "js_div a b =
     (if b \<noteq> 0 then Fin (a / b)
      else if a = 0 then NaN
      else if 0 < a then PosInfinity else NegInfinity)"

fun js_gt :: "jsnum \<Rightarrow> rat \<Rightarrow> bool" where
  "js_gt NaN t = False"
| "js_gt NegInfinity t = False"
| "js_gt (Fin x) t = (t < x)"
| "js_gt PosInfinity t = True"

fun js_lt :: "jsnum \<Rightarrow> rat \<Rightarrow> bool" where
  "js_lt NaN t = False"
| "js_lt NegInfinity t = True"
| "js_lt (Fin x) t = (x < t)"
| "js_lt PosInfinity t = False"

text \<open>\<open>Math.round\<close> rounds to the nearest integer, halves towards plus infinity.\<close>

definition Math_round :: "rat \<Rightarrow> rat" where
  "Math_round x = of_int \<lfloor>x + 1 / 2\<rfloor>"

fun js_Math_round :: "jsnum \<Rightarrow> jsnum" where
  "js_Math_round (Fin x) = Fin (Math_round x)"
| "js_Math_round v = v"

text \<open>The idiom \<open>Math.round(x * 100) / 100\<close> of every analyzer.\<close>

definition round2 :: "rat \<Rightarrow> rat" where
  "round2 x = Math_round (x * 100) / 100"

subsection \<open>Strings\<close>

text \<open>
  Text is a list of 8-bit characters. \<open>toLowerCase\<close> maps the letters A to Z, and the
  class \<open>\s\<close> of the regular expression is the ASCII white space (tab, line feed,
  vertical tab, form feed, carriage return, space).
\<close>

definition lowerChar :: "char \<Rightarrow> char" where
  "lowerChar c =
     (let n = (of_char c :: nat) in if 65 \<le> n \<and> n \<le> 90 then char_of (n + 32) else c)"

definition toLowerCase :: "string \<Rightarrow> string" where
  "toLowerCase s = map lowerChar s"

definition isSpace :: "char \<Rightarrow> bool" where
  "isSpace c = (let n = (of_char c :: nat) in (9 \<le> n \<and> n \<le> 13) \<or> n = 32)"

text \<open>
  \<open>s.split(/\s+/)\<close>: the pieces between maximal runs of white space; a leading or a
  trailing run gives an empty first or last piece, and the empty string gives one empty
  piece.
\<close>

function splitWhitespace :: "string \<Rightarrow> string list" where
  "splitWhitespace [] = [[]]"
| "splitWhitespace (c # cs) =
     (if isSpace c then [] # splitWhitespace (dropWhile isSpace cs)
      else (case splitWhitespace cs of
              [] \<Rightarrow> [[c]]
            | w # ws \<Rightarrow> (c # w) # ws))"
  by pat_completeness auto
termination
  by (relation "measure length") (auto simp: length_dropWhile_le less_Suc_eq_le)

text \<open>\<open>s.split(' ')\<close>: the pieces between single spaces, never an empty array.\<close>

fun splitSpace :: "string \<Rightarrow> string list" where
  "splitSpace [] = [[]]"
| "splitSpace (c # cs) =
     (if c = CHR '' '' then [] # splitSpace cs
      else (case splitSpace cs of
              [] \<Rightarrow> [[c]]
            | w # ws \<Rightarrow> (c # w) # ws))"

text \<open>\<open>word.includes(keyword)\<close>: the keyword occurs as a contiguous substring.\<close>

fun startsWith :: "string \<Rightarrow> string \<Rightarrow> bool" where
  "startsWith w [] = True"
| "startsWith [] (k # ks) = False"
| "startsWith (c # cs) (k # ks) = (c = k \<and> startsWith cs ks)"

fun includes_str :: "string \<Rightarrow> string \<Rightarrow> bool" where
  "includes_str [] keyword = startsWith [] keyword"
| "includes_str (c # cs) keyword = (startsWith (c # cs) keyword \<or> includes_str cs keyword)"

section \<open>The response analyzers\<close>

record toneVector =
  confidence :: rat
  energy :: rat
  verbosity :: rat
  hesitation :: rat
  authenticity :: rat

record analysis =
  emotion :: string
  tone :: toneVector

text \<open>
  \<open>keywords.filter(keyword => words.some(word => word.includes(keyword))).length\<close>
\<close>

definition keywordMatches :: "string list \<Rightarrow> string list \<Rightarrow> nat" where
  "keywordMatches words keywords =
     length (filter (\<lambda>keyword. list_ex (\<lambda>word. includes_str word keyword) words) keywords)"

text \<open>
  The loop over \<open>Object.entries(emotionKeywords)\<close>, in the insertion order of the
  table, with its two variables \<open>detectedEmotion\<close> and \<open>maxMatches\<close>.
\<close>

fun emotionLoop :: "string list \<Rightarrow> (string \<times> string list) list \<Rightarrow> string \<Rightarrow> nat \<Rightarrow> string" where
  "emotionLoop words [] detectedEmotion maxMatches = detectedEmotion"
| "emotionLoop words ((emotionName, keywords) # rest) detectedEmotion maxMatches =
     (let matches = keywordMatches words keywords in
      if matches > maxMatches then emotionLoop words rest emotionName matches
      else emotionLoop words rest detectedEmotion maxMatches)"

definition detectEmotion :: "(string \<times> string list) list \<Rightarrow> string list \<Rightarrow> string" where
  "detectEmotion table words = emotionLoop words table ''neutral'' 0"

text \<open>
  \<open>words.filter(word => list.some(k => word.includes(k))).length / Math.max(wordCount, 1)\<close>
\<close>

definition keywordShare :: "string list \<Rightarrow> string list \<Rightarrow> rat" where
  "keywordShare list words =
     of_nat (length (filter (\<lambda>word. list_ex (\<lambda>k. includes_str word k) list) words))
       / of_nat (max (length words) 1)"

subsection \<open>PsychologicalQuestionnaire.tsx: analyzeResponse\<close>

definition responseWords :: "string \<Rightarrow> string list" where
  "responseWords text = filter (\<lambda>word. length word > 0) (splitWhitespace (toLowerCase text))"

definition emotionKeywords :: "(string \<times> string list) list" where
  "emotionKeywords =
     [(''joy'', [''happy'', ''excited'', ''love'', ''amazing'', ''wonderful'', ''great'',
                 ''fantastic'', ''joy'', ''delighted'']),
      (''sadness'', [''sad'', ''disappointed'', ''hurt'', ''lonely'', ''depressed'', ''down'',
                     ''melancholy'', ''grief'']),
      (''anger'', [''angry'', ''frustrated'', ''annoyed'', ''mad'', ''furious'', ''irritated'',
                   ''rage'', ''upset'']),
      (''fear'', [''scared'', ''worried'', ''anxious'', ''nervous'', ''afraid'', ''concerned'',
                  ''terrified'', ''panic'']),
      (''surprise'', [''surprised'', ''shocked'', ''unexpected'', ''amazed'', ''wow'',
                      ''astonished'']),
      (''contemplative'', [''think'', ''reflect'', ''consider'', ''ponder'', ''wonder'',
                           ''contemplate'', ''introspect'']),
      (''neutral'', [''okay'', ''fine'', ''normal'', ''usual'', ''regular'', ''alright'',
                     ''standard''])]"

definition energeticWords :: "string list" where
  "energeticWords =
     [''very'', ''really'', ''extremely'', ''absolutely'', ''totally'', ''completely'',
      ''definitely'']"

definition hesitantWords :: "string list" where
  "hesitantWords =
     [''maybe'', ''perhaps'', ''think'', ''probably'', ''might'', ''sort'', ''kind'',
      ''somewhat'', ''possibly'']"

definition analyzeWords :: "string list \<Rightarrow> analysis" where
  "analyzeWords words =
     (let wordCount = length words;
          detectedEmotion = detectEmotion emotionKeywords words;
          confidence = min 1 (of_nat wordCount / 15);
          energy = keywordShare energeticWords words;
          verbosity = min 1 (of_nat wordCount / 30);
          hesitation = keywordShare hesitantWords words;
          authenticity =
            max (3 / 10)
              (1 - hesitation * (4 / 10) + confidence * (3 / 10)
                 - (if energy > 3 / 10 then 1 / 10 else 0))
      in \<lparr>emotion = detectedEmotion,
          tone = \<lparr>confidence = round2 confidence,
                   energy = round2 energy,
                   verbosity = round2 verbosity,
                   hesitation = round2 hesitation,
                   authenticity = round2 (max 0 (min 1 authenticity))\<rparr>\<rparr>)"

definition analyzeResponse :: "string \<Rightarrow> analysis" where
  "analyzeResponse text = analyzeWords (responseWords text)"

subsection \<open>EnhancedPsychQuestionnaire.tsx: analyzeResponse\<close>

definition emotionKeywords_Enhanced :: "(string \<times> string list) list" where
  "emotionKeywords_Enhanced =
     [(''joy'', [''happy'', ''excited'', ''love'', ''amazing'', ''wonderful'', ''great'',
                 ''fantastic'', ''joy'', ''delighted'', ''thrilled'', ''passionate'']),
      (''sadness'', [''sad'', ''disappointed'', ''hurt'', ''lonely'', ''depressed'', ''down'',
                     ''melancholy'', ''grief'', ''loss'', ''empty'']),
      (''anger'', [''angry'', ''frustrated'', ''annoyed'', ''mad'', ''furious'', ''irritated'',
                   ''rage'', ''upset'', ''resentful'', ''bitter'']),
      (''fear'', [''scared'', ''worried'', ''anxious'', ''nervous'', ''afraid'', ''concerned'',
                  ''terrified'', ''panic'', ''overwhelmed'']),
      (''surprise'', [''surprised'', ''shocked'', ''unexpected'', ''amazed'', ''wow'',
                      ''astonished'', ''stunned'', ''bewildered'']),
      (''contemplative'', [''think'', ''reflect'', ''consider'', ''ponder'', ''wonder'',
                           ''contemplate'', ''introspect'', ''analyze'', ''understand'']),
      (''confident'', [''confident'', ''sure'', ''certain'', ''believe'', ''know'', ''trust'',
                       ''strong'', ''capable'', ''determined'']),
      (''vulnerable'', [''vulnerable'', ''uncertain'', ''confused'', ''lost'', ''struggling'',
                        ''questioning'', ''doubt'', ''insecure'']),
      (''neutral'', [''okay'', ''fine'', ''normal'', ''usual'', ''regular'', ''alright'',
                     ''standard'', ''typical''])]"

definition energeticWords_Enhanced :: "string list" where
  "energeticWords_Enhanced =
     [''very'', ''really'', ''extremely'', ''absolutely'', ''totally'', ''completely'',
      ''definitely'', ''incredibly'', ''deeply'']"

definition hesitantWords_Enhanced :: "string list" where
  "hesitantWords_Enhanced =
     [''maybe'', ''perhaps'', ''think'', ''probably'', ''might'', ''sort'', ''kind'',
      ''somewhat'', ''possibly'', ''guess'', ''suppose'']"

definition analyzeWords_Enhanced :: "string list \<Rightarrow> analysis" where
  "analyzeWords_Enhanced words =
     (let wordCount = length words;
          detectedEmotion = detectEmotion emotionKeywords_Enhanced words;
          confidence = min 1 (of_nat wordCount / 15);
          energy = keywordShare energeticWords_Enhanced words;
          verbosity = min 1 (of_nat wordCount / 30);
          hesitation = keywordShare hesitantWords_Enhanced words;
          personalPronouns =
            length (filter (\<lambda>word. List.member [''i'', ''me'', ''my'', ''myself''] word) words);
          specificDetails = length (filter (\<lambda>word. length word > 6) words);
          emotionalWords = keywordMatches words (concat (map snd emotionKeywords_Enhanced));
          authenticity =
            max (3 / 10)
              (of_nat personalPronouns / of_nat (max wordCount 1) * (3 / 10)
                 + of_nat specificDetails / of_nat (max wordCount 1) * (3 / 10)
                 + of_nat emotionalWords / of_nat (max wordCount 1) * (2 / 10)
                 + (1 - hesitation) * (2 / 10))
      in \<lparr>emotion = detectedEmotion,
          tone = \<lparr>confidence = round2 confidence,
                   energy = round2 energy,
                   verbosity = round2 verbosity,
                   hesitation = round2 hesitation,
                   authenticity = round2 (max 0 (min 1 authenticity))\<rparr>\<rparr>)"

definition analyzeResponse_Enhanced :: "string \<Rightarrow> analysis" where
  "analyzeResponse_Enhanced text = analyzeWords_Enhanced (responseWords text)"

subsection \<open>conversationalAI.ts: analyzeUserResponse\<close>

text \<open>
  This analyzer splits at single spaces and keeps empty pieces, so \<open>words.length\<close> is
  at least one and the divisions by \<open>wordCount\<close> are divisions by a positive number.
\<close>

definition emotionKeywords_AI :: "(string \<times> string list) list" where
  "emotionKeywords_AI =
     [(''joy'', [''happy'', ''excited'', ''love'', ''amazing'', ''wonderful'', ''great'',
                 ''fantastic'']),
      (''sadness'', [''sad'', ''disappointed'', ''hurt'', ''lonely'', ''depressed'', ''down'']),
      (''anger'', [''angry'', ''frustrated'', ''annoyed'', ''mad'', ''furious'', ''irritated'']),
      (''fear'', [''scared'', ''worried'', ''anxious'', ''nervous'', ''afraid'', ''concerned'']),
      (''surprise'', [''surprised'', ''shocked'', ''unexpected'', ''amazed'', ''wow'']),
      (''neutral'', [''okay'', ''fine'', ''normal'', ''usual'', ''regular'', ''alright''])]"

definition energeticWords_AI :: "string list" where
  "energeticWords_AI = [''very'', ''really'', ''extremely'', ''absolutely'', ''!'', ''totally'']"

definition hesitantWords_AI :: "string list" where
  "hesitantWords_AI = [''maybe'', ''perhaps'', ''i think'', ''probably'', ''might'', ''sort of'']"

definition analyzeUserWords :: "string list \<Rightarrow> analysis" where
  "analyzeUserWords words =
     (let wordCount = length words;
          detectedEmotion = detectEmotion emotionKeywords_AI words;
          confidence = min 1 (of_nat wordCount / 15);
          energy =
            of_nat (length (filter (\<lambda>word. list_ex (\<lambda>k. includes_str word k) energeticWords_AI) words))
              / of_nat wordCount;
          verbosity = min 1 (of_nat wordCount / 30);
          hesitation =
            of_nat (length (filter (\<lambda>word. list_ex (\<lambda>k. includes_str word k) hesitantWords_AI) words))
              / of_nat wordCount;
          authenticity = 1 - hesitation * (3 / 10) + confidence * (2 / 10)
      in \<lparr>emotion = detectedEmotion,
          tone = \<lparr>confidence = round2 confidence,
                   energy = round2 energy,
                   verbosity = round2 verbosity,
                   hesitation = round2 hesitation,
                   authenticity = round2 (max 0 (min 1 authenticity))\<rparr>\<rparr>)"

definition analyzeUserResponse :: "string \<Rightarrow> analysis" where
  "analyzeUserResponse message = analyzeUserWords (splitSpace (toLowerCase message))"

text \<open>The closed set of emotion labels of the glossary.\<close>

definition emotionLabels :: "string list" where
  "emotionLabels =
     [''joy'', ''sadness'', ''anger'', ''fear'', ''surprise'', ''contemplative'', ''confident'',
      ''vulnerable'', ''neutral'']"

section \<open>The profile aggregator (PsychologicalQuestionnaire.tsx)\<close>

record Answer =
  questionId :: int
  question :: string
  answer :: string
  responseTime :: int
  wordCount :: nat
  emotionDetected :: string
  toneAnalysis :: toneVector

record responsePatterns =
  avg_word_count :: jsnum
  avg_response_time :: jsnum
  emotional_range :: nat
  dominant_emotion :: string

record psychProfile =
  archetype :: string
  core_traits :: "string list"
  motivational_type :: string
  shadow_traits :: "string list"
  emotion_profile :: string
  honesty_index :: jsnum
  communication_mode :: string
  tone_signature :: string
  response_patterns :: responsePatterns

record extractedData =
  name :: string
  psych_profile :: psychProfile
  answers :: "Answer list"
  data_consent :: bool
  session_completed_at :: string

text \<open>
  The sums are \<open>answers.reduce((sum, a) => sum + ..., 0)\<close> and the divisor is
  \<open>answers.length\<close>: on the empty array each mean is \<open>0 / 0\<close>.
\<close>

definition totalWords :: "Answer list \<Rightarrow> nat" where
  "totalWords as = sum_list (map wordCount as)"

definition avgResponseTime :: "Answer list \<Rightarrow> jsnum" where
  "avgResponseTime as = js_div (of_int (sum_list (map responseTime as))) (of_nat (length as))"

definition avgAuthenticity :: "Answer list \<Rightarrow> jsnum" where
  "avgAuthenticity as =
     js_div (sum_list (map (\<lambda>a. authenticity (toneAnalysis a)) as)) (of_nat (length as))"

definition avgConfidence :: "Answer list \<Rightarrow> jsnum" where
  "avgConfidence as =
     js_div (sum_list (map (\<lambda>a. confidence (toneAnalysis a)) as)) (of_nat (length as))"

definition avgVerbosity :: "Answer list \<Rightarrow> jsnum" where
  "avgVerbosity as =
     js_div (sum_list (map (\<lambda>a. verbosity (toneAnalysis a)) as)) (of_nat (length as))"

definition avgHesitation :: "Answer list \<Rightarrow> jsnum" where
  "avgHesitation as =
     js_div (sum_list (map (\<lambda>a. hesitation (toneAnalysis a)) as)) (of_nat (length as))"

text \<open>
  \<open>emotionCounts\<close> is an object filled by \<open>acc[emotion] = (acc[emotion] || 0) + 1\<close>. For
  property names that are neither array indices nor names inherited from
  \<open>Object.prototype\<close>, as all labels of the analyzers are, \<open>Object.entries\<close> lists the
  properties in the order of their first insertion: the object is an association list.
\<close>

fun countEmotion :: "(string \<times> nat) list \<Rightarrow> string \<Rightarrow> (string \<times> nat) list" where
  "countEmotion [] e = [(e, 1)]"
| "countEmotion ((k, n) # acc) e =
     (if k = e then (k, n + 1) # acc else (k, n) # countEmotion acc e)"

definition emotionCounts :: "Answer list \<Rightarrow> (string \<times> nat) list" where
  "emotionCounts as = foldl countEmotion [] (map emotionDetected as)"

text \<open>
  \<open>.sort(([,a], [,b]) => b - a)\<close>: by descending count. \<open>Array.prototype.sort\<close> is
  stable, as is the insertion sort \<open>sort_key\<close>.
\<close>

definition sortByCount :: "(string \<times> nat) list \<Rightarrow> (string \<times> nat) list" where
  "sortByCount entries = sort_key (\<lambda>entry. - int (snd entry)) entries"

text \<open>\<open>sorted[0]?.[0] || 'neutral'\<close>: the empty string is falsy as well.\<close>

definition dominantEmotion :: "Answer list \<Rightarrow> string" where
  "dominantEmotion as =
     (case sortByCount (emotionCounts as) of
        [] \<Rightarrow> ''neutral''
      | (e, n) # rest \<Rightarrow> (if e = [] then ''neutral'' else e))"

text \<open>
  The three variables \<open>archetype\<close>, \<open>motivationalType\<close> and \<open>communicationMode\<close> are
  assigned together by one chain of \<open>if ... else if\<close>.
\<close>

definition classifyArchetype :: "Answer list \<Rightarrow> string \<times> string \<times> string" where
  "classifyArchetype as =
     (if js_gt (avgVerbosity as) (6 / 10) \<and> js_gt (avgAuthenticity as) (7 / 10) then
        (''The Reflective Storyteller'', ''narrative-driven introspector'',
         ''expressive and detailed'')
      else if js_gt (avgConfidence as) (7 / 10) \<and> js_lt (avgHesitation as) (3 / 10) then
        (''The Decisive Visionary'', ''action-oriented leader'', ''direct and confident'')
      else if js_gt (avgHesitation as) (4 / 10) \<and> js_gt (avgAuthenticity as) (6 / 10) then
        (''The Thoughtful Analyst'', ''careful contemplator'', ''measured and considerate'')
      else if dominantEmotion as = ''contemplative'' \<or> dominantEmotion as = ''neutral'' then
        (''The Philosophical Observer'', ''wisdom-seeking observer'',
         ''analytical and reserved'')
      else (''The Balanced Explorer'', ''balanced seeker'', ''thoughtful''))"

definition coreTraits :: "Answer list \<Rightarrow> string list" where
  "coreTraits as =
     (if js_gt (avgAuthenticity as) (7 / 10) then [''authentic''] else [])
     @ (if js_gt (avgVerbosity as) (5 / 10) then [''expressive''] else [])
     @ (if js_gt (avgConfidence as) (6 / 10) then [''self-assured''] else [])
     @ (if js_gt (avgHesitation as) (4 / 10) then [''thoughtful''] else [])
     @ (if dominantEmotion as = ''contemplative'' then [''introspective''] else [])
     @ (if totalWords as > 200 then [''articulate''] else [])"

definition shadowTraits :: "Answer list \<Rightarrow> string list" where
  "shadowTraits as =
     (if js_gt (avgHesitation as) (5 / 10) then [''tendency to overthink''] else [])
     @ (if js_lt (avgConfidence as) (4 / 10) then [''self-doubt patterns''] else [])
     @ (if js_lt (avgVerbosity as) (3 / 10) then [''communication guardedness''] else [])
     @ (if js_gt (avgResponseTime as) 60 then [''perfectionist tendencies''] else [])"

text \<open>
  \<open>userName\<close> is a property of the component and \<open>now\<close> is the value of
  \<open>new Date().toISOString()\<close> at the call: the function reads the clock.
\<close>

definition generatePsychologicalProfile ::
    "string \<Rightarrow> string \<Rightarrow> Answer list \<Rightarrow> bool \<Rightarrow> extractedData" where
  "generatePsychologicalProfile userName now as dataConsent =
     \<lparr>name = userName,
      psych_profile =
        \<lparr>archetype = fst (classifyArchetype as),
         core_traits = coreTraits as,
         motivational_type = fst (snd (classifyArchetype as)),
         shadow_traits = shadowTraits as,
         emotion_profile =
           dominantEmotion as @ '' dominant with ''
             @ (if js_gt (avgAuthenticity as) (7 / 10) then ''high'' else ''moderate'')
             @ '' authenticity'',
         honesty_index = avgAuthenticity as,
         communication_mode = snd (snd (classifyArchetype as)),
         tone_signature =
           (if js_gt (avgVerbosity as) (5 / 10) then ''verbose'' else ''concise'') @ '', ''
             @ (if js_gt (avgConfidence as) (6 / 10) then ''confident'' else ''measured''),
         response_patterns =
           \<lparr>avg_word_count =
              js_Math_round (js_div (of_nat (totalWords as)) (of_nat (length as))),
            avg_response_time = js_Math_round (avgResponseTime as),
            emotional_range = length (emotionCounts as),
            dominant_emotion = dominantEmotion as\<rparr>\<rparr>,
      answers = as,
      data_consent = dataConsent,
      session_completed_at = now\<rparr>"

section \<open>PsychologySession (psychology service)\<close>

text \<open>
  The two private arrays of the class that \<open>isComplete\<close> reads; questions and
  responses are kept by their identifiers and answer texts.
\<close>

record psychologySession =
  questions :: "nat list"
  responses :: "string list"

definition isComplete :: "psychologySession \<Rightarrow> bool" where
  "isComplete s = (length (responses s) \<ge> min 8 (length (questions s)))"

section \<open>Notions used to state the properties\<close>

text \<open>
  The object that \<open>handleSubmitAnswer\<close> appends to the session for the trimmed,
  non-blank text of an answer (on a blank answer the handler returns at once and
  appends nothing).
\<close>

definition submittedAnswer :: "int \<Rightarrow> string \<Rightarrow> int \<Rightarrow> string \<Rightarrow> Answer" where
  "submittedAnswer qid qtext seconds trimmed =
     (let analysis = analyzeResponse trimmed
      in \<lparr>questionId = qid, question = qtext, answer = trimmed, responseTime = seconds,
          wordCount = length (splitWhitespace trimmed),
          emotionDetected = emotion analysis, toneAnalysis = tone analysis\<rparr>)"

text \<open>
  A well-formed analysis: the label belongs to the closed set and every tone field lies
  between 0 and 1.
\<close>

definition unitTone :: "toneVector \<Rightarrow> bool" where
  "unitTone t = (0 \<le> confidence t \<and> confidence t \<le> 1 \<and> 0 \<le> energy t \<and> energy t \<le> 1
     \<and> 0 \<le> verbosity t \<and> verbosity t \<le> 1 \<and> 0 \<le> hesitation t \<and> hesitation t \<le> 1
     \<and> 0 \<le> authenticity t \<and> authenticity t \<le> 1)"

definition wellFormed :: "analysis \<Rightarrow> bool" where
  "wellFormed r =
     (emotion r \<in> set emotionLabels
      \<and> 0 \<le> confidence (tone r) \<and> confidence (tone r) \<le> 1
      \<and> 0 \<le> energy (tone r) \<and> energy (tone r) \<le> 1
      \<and> 0 \<le> verbosity (tone r) \<and> verbosity (tone r) \<le> 1
      \<and> 0 \<le> hesitation (tone r) \<and> hesitation (tone r) \<le> 1
      \<and> 0 \<le> authenticity (tone r) \<and> authenticity (tone r) \<le> 1)"

text \<open>The distinct elements of a list, in the order of their first occurrence.\<close>

primrec firstSeen :: "string list \<Rightarrow> string list" where
  "firstSeen [] = []"
| "firstSeen (x # xs) = x # filter (\<lambda>y. y \<noteq> x) (firstSeen xs)"

text \<open>
  An ordered decision list, read from top to bottom: the first rule whose condition holds
  gives the result, and the fallback is the result when none holds. The rules of the
  archetype classification are the three threshold tests on the mean tone metrics,
  followed by the test on the dominant emotion.
\<close>

fun decisionList :: "(bool \<times> 'a) list \<Rightarrow> 'a \<Rightarrow> 'a" where
  "decisionList [] fallback = fallback"
| "decisionList ((matches, v) # rules) fallback = (if matches then v else decisionList rules fallback)"

definition toneRules :: "Answer list \<Rightarrow> (bool \<times> string) list" where
  "toneRules as =
     [(js_gt (avgVerbosity as) (6 / 10) \<and> js_gt (avgAuthenticity as) (7 / 10),
       ''The Reflective Storyteller''),
      (js_gt (avgConfidence as) (7 / 10) \<and> js_lt (avgHesitation as) (3 / 10),
       ''The Decisive Visionary''),
      (js_gt (avgHesitation as) (4 / 10) \<and> js_gt (avgAuthenticity as) (6 / 10),
       ''The Thoughtful Analyst'')]"

definition archetypeRules :: "Answer list \<Rightarrow> (bool \<times> string) list" where
  "archetypeRules as =
     toneRules as
     @ [(dominantEmotion as = ''contemplative'' \<or> dominantEmotion as = ''neutral'',
         ''The Philosophical Observer'')]"

section \<open>Auxiliary facts\<close>

subsection \<open>Rounding and ranges\<close>

lemma Math_round_mono: "x \<le> y \<Longrightarrow> Math_round x \<le> Math_round y"
  by (simp add: Math_round_def floor_mono)

lemma round2_mono: "x \<le> y \<Longrightarrow> round2 x \<le> round2 y"
  by (simp add: round2_def Math_round_mono divide_right_mono)

lemma round2_0: "round2 0 = 0"
  by (simp add: round2_def Math_round_def floor_eq_iff)

lemma round2_1: "round2 1 = 1"
  by (simp add: round2_def Math_round_def floor_eq_iff)

lemma round2_3_10: "round2 (3 / 10) = 3 / 10"
  by (simp add: round2_def Math_round_def floor_eq_iff)

lemma round2_unit: "0 \<le> x \<Longrightarrow> x \<le> 1 \<Longrightarrow> 0 \<le> round2 x \<and> round2 x \<le> 1"
  using round2_mono [of 0 x] round2_mono [of x 1] by (simp add: round2_0 round2_1)

lemma keywordShare_unit: "0 \<le> keywordShare list words \<and> keywordShare list words \<le> 1"
proof -
  let ?n = "length (filter (\<lambda>word. list_ex (\<lambda>k. includes_str word k) list) words)"
  have "?n \<le> max (length words) 1"
    using length_filter_le [of _ words] by (simp add: le_max_iff_disj)
  then have "(of_nat ?n :: rat) \<le> of_nat (max (length words) 1)"
    by (simp only: of_nat_le_iff)
  moreover have "(0::rat) < of_nat (max (length words) 1)"
    by simp
  ultimately show ?thesis
    unfolding keywordShare_def by (simp add: divide_le_eq_1)
qed

lemma emotionLoop_label:
  "emotionLoop words table d m \<in> insert d (fst ` set table)"
  by (induction words table d m rule: emotionLoop.induct) (auto simp: Let_def)

lemma detectEmotion_label:
  "detectEmotion table words \<in> insert ''neutral'' (fst ` set table)"
  unfolding detectEmotion_def by (rule emotionLoop_label)

lemma clamp_unit: "0 \<le> max 0 (min 1 (x::rat)) \<and> max 0 (min 1 x) \<le> 1"
  by simp

lemma splitSpace_nonempty: "splitSpace s \<noteq> []"
  by (induction s) (auto split: list.splits)

lemma analyzeWords_unit: "unitTone (tone (analyzeWords words))"
  unfolding unitTone_def analyzeWords_def Let_def
  using keywordShare_unit [of energeticWords words] keywordShare_unit [of hesitantWords words]
  by (simp add: round2_unit)

lemma analyzeWords_Enhanced_unit: "unitTone (tone (analyzeWords_Enhanced words))"
  unfolding unitTone_def analyzeWords_Enhanced_def Let_def
  using keywordShare_unit [of energeticWords_Enhanced words] keywordShare_unit [of hesitantWords_Enhanced words]
  by (simp add: round2_unit)

lemma share_unit:
  "words \<noteq> [] \<Longrightarrow> 0 \<le> (of_nat (length (filter P words)) :: rat) / of_nat (length words)
    \<and> (of_nat (length (filter P words)) :: rat) / of_nat (length words) \<le> 1"
  by (simp add: divide_le_eq_1)

lemma analyzeUserWords_unit: "words \<noteq> [] \<Longrightarrow> unitTone (tone (analyzeUserWords words))"
  unfolding unitTone_def analyzeUserWords_def Let_def
  using share_unit [of words]
  by (simp add: round2_unit)

lemma labels_PQ: "fst ` set emotionKeywords \<subseteq> set emotionLabels"
  by (simp add: emotionKeywords_def emotionLabels_def)

lemma labels_Enh: "fst ` set emotionKeywords_Enhanced \<subseteq> set emotionLabels"
  by (simp add: emotionKeywords_Enhanced_def emotionLabels_def)

lemma labels_AI: "fst ` set emotionKeywords_AI \<subseteq> set emotionLabels"
  by (simp add: emotionKeywords_AI_def emotionLabels_def)

lemma neutral_label: "''neutral'' \<in> set emotionLabels"
  by (simp add: emotionLabels_def)

lemma detect_in_labels:
  "fst ` set table \<subseteq> set emotionLabels \<Longrightarrow> detectEmotion table words \<in> set emotionLabels"
  using detectEmotion_label [of table words] neutral_label by auto

lemma emotion_analyzeUserResponse:
  "emotion (analyzeUserResponse text) = detectEmotion emotionKeywords_AI (splitSpace (toLowerCase text))"
  by (simp add: analyzeUserResponse_def analyzeUserWords_def Let_def)

lemma confidence_analyzeResponse:
  "confidence (tone (analyzeResponse s)) = round2 (min 1 (of_nat (length (responseWords s)) / 15))"
  "verbosity (tone (analyzeResponse s)) = round2 (min 1 (of_nat (length (responseWords s)) / 30))"
  "confidence (tone (analyzeResponse_Enhanced s)) = round2 (min 1 (of_nat (length (responseWords s)) / 15))"
  "verbosity (tone (analyzeResponse_Enhanced s)) = round2 (min 1 (of_nat (length (responseWords s)) / 30))"
  by (simp_all add: analyzeResponse_def analyzeWords_def analyzeResponse_Enhanced_def
      analyzeWords_Enhanced_def Let_def)

lemma capped_ratio_mono:
  "m \<le> n \<Longrightarrow> 0 < c \<Longrightarrow> round2 (min 1 (of_nat m / c)) \<le> round2 (min 1 (of_nat n / c))"
proof -
  assume "m \<le> n" and "0 < c"
  then have "(of_nat m :: rat) / c \<le> of_nat n / c"
    by (simp add: divide_right_mono)
  then have "min 1 ((of_nat m :: rat) / c) \<le> min 1 (of_nat n / c)"
    by (simp add: min_le_iff_disj)
  then show ?thesis by (rule round2_mono)
qed

lemma authenticity_floor:
  "3 / 10 \<le> a \<Longrightarrow> 3 / 10 \<le> round2 (max 0 (min 1 a))"
proof -
  assume "3 / 10 \<le> a"
  then have "3 / 10 \<le> max 0 (min 1 a)" by simp
  then have "round2 (3 / 10) \<le> round2 (max 0 (min 1 a))" by (rule round2_mono)
  then show ?thesis by (simp add: round2_3_10)
qed

subsection \<open>The emotion loop\<close>

lemma emotionLoop_keep:
  "\<forall>x\<in>set table. keywordMatches words (snd x) \<le> m \<Longrightarrow> emotionLoop words table d m = d"
  by (induction words table d m rule: emotionLoop.induct) (auto simp: Let_def)

lemma emotionLoop_first_max:
  "m < keywordMatches words k
   \<Longrightarrow> \<forall>x\<in>set pre. keywordMatches words (snd x) < keywordMatches words k
   \<Longrightarrow> \<forall>x\<in>set post. keywordMatches words (snd x) \<le> keywordMatches words k
   \<Longrightarrow> emotionLoop words (pre @ (e, k) # post) d m = e"
proof (induction pre arbitrary: d m)
  case Nil
  then show ?case by (simp add: emotionLoop_keep)
next
  case (Cons x pre)
  obtain e' k' where x: "x = (e', k')" by (cases x)
  from Cons.prems have lt: "keywordMatches words k' < keywordMatches words k"
    and rest: "\<forall>y\<in>set pre. keywordMatches words (snd y) < keywordMatches words k"
    by (simp_all add: x)
  show ?case
  proof (cases "m < keywordMatches words k'")
    case True
    then show ?thesis
      using Cons.IH [OF lt rest Cons.prems(3)] by (simp add: x)
  next
    case False
    then show ?thesis
      using Cons.IH [OF Cons.prems(1) rest Cons.prems(3)] by (simp add: x)
  qed
qed

lemma detectEmotion_zero:
  "\<forall>x\<in>set table. keywordMatches words (snd x) = 0 \<Longrightarrow> detectEmotion table words = ''neutral''"
  unfolding detectEmotion_def by (rule emotionLoop_keep) simp

lemma detectEmotion_first_max:
  "table = pre @ (e, k) # post \<Longrightarrow> 0 < keywordMatches words k
   \<Longrightarrow> \<forall>x\<in>set pre. keywordMatches words (snd x) < keywordMatches words k
   \<Longrightarrow> \<forall>x\<in>set post. keywordMatches words (snd x) \<le> keywordMatches words k
   \<Longrightarrow> detectEmotion table words = e"
  unfolding detectEmotion_def by (simp add: emotionLoop_first_max)

lemma emotion_analyzeResponse:
  "emotion (analyzeResponse text) = detectEmotion emotionKeywords (responseWords text)"
  by (simp add: analyzeResponse_def analyzeWords_def Let_def)

lemma emotion_analyzeResponse_Enhanced:
  "emotion (analyzeResponse_Enhanced text) = detectEmotion emotionKeywords_Enhanced (responseWords text)"
  by (simp add: analyzeResponse_Enhanced_def analyzeWords_Enhanced_def Let_def)

subsection \<open>The emotion histogram and its sorted head\<close>

lemma set_firstSeen: "set (firstSeen xs) = set xs"
  by (induction xs) auto

lemma firstSeen_filter: "firstSeen (filter P xs) = filter P (firstSeen xs)"
proof (induction xs)
  case Nil
  then show ?case by simp
next
  case (Cons x xs)
  have "filter P (filter (\<lambda>y. y \<noteq> x) (firstSeen xs)) = filter (\<lambda>y. y \<noteq> x) (filter P (firstSeen xs))"
    by (simp add: conj_commute)
  moreover have "\<not> P x \<Longrightarrow> filter P (filter (\<lambda>y. y \<noteq> x) (firstSeen xs)) = filter P (firstSeen xs)"
    by (auto intro: filter_cong)
  ultimately show ?case using Cons by simp
qed

lemma keys_countEmotion:
  "fst ` set (countEmotion acc e) = insert e (fst ` set acc)"
  by (induction acc e rule: countEmotion.induct) auto

lemma keys_foldl_countEmotion:
  "fst ` set (foldl countEmotion acc es) = fst ` set acc \<union> set es"
  by (induction es arbitrary: acc) (auto simp: keys_countEmotion)

lemma foldl_countEmotion_head:
  "x \<notin> fst ` set acc \<Longrightarrow>
   foldl countEmotion ((x, n) # acc) es =
     (x, n + count_list es x) # foldl countEmotion acc (filter (\<lambda>y. y \<noteq> x) es)"
proof (induction es arbitrary: n acc)
  case Nil
  then show ?case by simp
next
  case (Cons y es)
  show ?case
  proof (cases "y = x")
    case True
    then show ?thesis using Cons.IH [OF Cons.prems, of "n + 1"] by simp
  next
    case False
    with Cons.prems have "x \<notin> fst ` set (countEmotion acc y)"
      by (simp add: keys_countEmotion)
    then show ?thesis using False Cons.IH [of "countEmotion acc y" n] by simp
  qed
qed

lemma foldl_countEmotion_eq:
  "foldl countEmotion [] es = map (\<lambda>k. (k, count_list es k)) (firstSeen es)"
proof (induction "length es" arbitrary: es rule: less_induct)
  case less
  show ?case
  proof (cases es)
    case Nil
    then show ?thesis by simp
  next
    case (Cons x xs)
    let ?ys = "filter (\<lambda>y. y \<noteq> x) xs"
    have "length ?ys < length es"
      using Cons by (simp add: less_Suc_eq_le)
    then have IH: "foldl countEmotion [] ?ys = map (\<lambda>k. (k, count_list ?ys k)) (firstSeen ?ys)"
      by (rule less)
    have cnt: "\<And>k. k \<noteq> x \<Longrightarrow> count_list ?ys k = count_list xs k"
      by (induction xs) auto
    have "foldl countEmotion [] es = foldl countEmotion [(x, 1)] xs"
      by (simp add: Cons)
    also have "\<dots> = (x, 1 + count_list xs x) # foldl countEmotion [] ?ys"
      by (rule foldl_countEmotion_head) simp
    also have "foldl countEmotion [] ?ys = map (\<lambda>k. (k, count_list xs k)) (firstSeen ?ys)"
      unfolding IH by (rule map_cong) (auto simp: set_firstSeen cnt)
    also have "firstSeen ?ys = filter (\<lambda>y. y \<noteq> x) (firstSeen xs)"
      by (rule firstSeen_filter)
    finally show ?thesis
      by (simp add: Cons filter_map comp_def cong: map_cong)
  qed
qed

lemma firstSeen_split:
  "d \<notin> set pre \<Longrightarrow> \<exists>A B. firstSeen (pre @ d # post) = A @ d # B \<and> set A = set pre"
proof (induction pre)
  case Nil
  then show ?case by auto
next
  case (Cons p pre)
  then obtain A B where AB: "firstSeen (pre @ d # post) = A @ d # B" "set A = set pre"
    by auto
  from Cons.prems have "d \<noteq> p" by auto
  then have "firstSeen ((p # pre) @ d # post) = (p # filter (\<lambda>y. y \<noteq> p) A) @ d # filter (\<lambda>y. y \<noteq> p) B"
    by (simp add: AB)
  moreover have "set (p # filter (\<lambda>y. y \<noteq> p) A) = set (p # pre)"
    using AB(2) by auto
  ultimately show ?case by blast
qed

lemma hd_sort_key:
  assumes "sort_key f xs = y # ys"
  shows "(\<forall>x\<in>set xs. f y \<le> f x) \<and> filter (\<lambda>x. f x = f y) xs = y # filter (\<lambda>x. f x = f y) ys"
proof -
  have "sorted (map f (sort_key f xs))" by (rule sorted_sort_key)
  then have "\<forall>x\<in>set ys. f y \<le> f x" by (simp add: assms)
  moreover have "set xs = set (y # ys)" using assms set_sort [of f xs] by simp
  ultimately have 1: "\<forall>x\<in>set xs. f y \<le> f x" by auto
  have "filter (\<lambda>x. f x = f y) xs = filter (\<lambda>x. f x = f y) (sort_key f xs)"
    by (rule sort_key_stable [symmetric])
  then show ?thesis using 1 by (simp add: assms)
qed

lemma emotionCounts_eq:
  "emotionCounts as =
     map (\<lambda>k. (k, count_list (map emotionDetected as) k)) (firstSeen (map emotionDetected as))"
  unfolding emotionCounts_def by (rule foldl_countEmotion_eq)

lemma dominantEmotion_first_most_frequent:
  assumes ne: "as \<noteq> []" and nonempty: "[] \<notin> emotionDetected ` set as"
  defines "es \<equiv> map emotionDetected as"
  defines "d \<equiv> dominantEmotion as"
  shows "d \<in> set es"
    and "count_list es e \<le> count_list es d"
    and "e \<in> set (takeWhile (\<lambda>x. x \<noteq> d) es) \<Longrightarrow> count_list es e < count_list es d"
proof -
  let ?g = "\<lambda>k. (k, count_list es k)"
  let ?f = "\<lambda>entry :: string \<times> nat. - int (snd entry)"
  have entries: "emotionCounts as = map ?g (firstSeen es)"
    unfolding es_def by (rule emotionCounts_eq)
  have "es \<noteq> []" using ne by (simp add: es_def)
  then have "firstSeen es \<noteq> []" using set_firstSeen [of es] by (cases es) auto
  then have "length (sortByCount (emotionCounts as)) \<noteq> 0"
    by (simp add: sortByCount_def entries)
  then have "sortByCount (emotionCounts as) \<noteq> []"
    by (simp only: length_0_conv not_False_eq_True)
  then obtain y ys where s: "sort_key ?f (emotionCounts as) = y # ys"
    by (auto simp: sortByCount_def neq_Nil_conv)
  from hd_sort_key [OF s]
  have least: "\<forall>x\<in>set (emotionCounts as). ?f y \<le> ?f x"
    and stable: "filter (\<lambda>x. ?f x = ?f y) (emotionCounts as) = y # filter (\<lambda>x. ?f x = ?f y) ys"
    by blast+
  have "y \<in> set (emotionCounts as)"
    using set_sort [of ?f "emotionCounts as"] s by auto
  then obtain k where k: "k \<in> set es" "y = ?g k"
    by (auto simp: entries set_firstSeen)
  have "k \<in> emotionDetected ` set as" using k(1) by (simp add: es_def)
  then have "k \<noteq> []" using nonempty by blast
  then have d: "d = k"
    by (simp add: d_def dominantEmotion_def sortByCount_def s k(2))
  show "d \<in> set es" using k(1) d by simp
  have le: "count_list es x \<le> count_list es d" for x
  proof (cases "x \<in> set es")
    case True
    then have "?g x \<in> set (emotionCounts as)" by (simp add: entries set_firstSeen)
    with least show ?thesis by (auto simp: k(2) d)
  next
    case False
    then show ?thesis by (simp add: count_list_0_iff)
  qed
  show "count_list es e \<le> count_list es d" by (rule le)
  show "count_list es e < count_list es d" if e: "e \<in> set (takeWhile (\<lambda>x. x \<noteq> d) es)"
  proof -
    let ?pre = "takeWhile (\<lambda>x. x \<noteq> d) es"
    have "dropWhile (\<lambda>x. x \<noteq> d) es \<noteq> []"
      using \<open>d \<in> set es\<close> by (simp add: dropWhile_eq_Nil_conv)
    then obtain post where post: "dropWhile (\<lambda>x. x \<noteq> d) es = d # post"
      using hd_dropWhile [of "\<lambda>x. x \<noteq> d" es] by (cases "dropWhile (\<lambda>x. x \<noteq> d) es") auto
    have split: "es = ?pre @ d # post"
      using takeWhile_dropWhile_id [of "\<lambda>x. x \<noteq> d" es] post by simp
    have notin: "d \<notin> set ?pre" by (auto dest: set_takeWhileD)
    from firstSeen_split [OF notin, of post] obtain A B
      where AB: "firstSeen es = A @ d # B" "set A = set ?pre"
      using split by auto
    let ?Q = "\<lambda>x. ?f x = ?f y"
    have "filter ?Q (map ?g A) = []"
    proof (rule ccontr)
      assume "filter ?Q (map ?g A) \<noteq> []"
      then obtain h hs where h: "filter ?Q (map ?g A) = h # hs" by (auto simp: neq_Nil_conv)
      then have "h = y" using stable by (simp add: entries AB(1))
      moreover have "h \<in> set (filter ?Q (map ?g A))" by (subst h) simp
      then have "h \<in> set (map ?g A)" by simp
      ultimately have "k \<in> set A" by (auto simp: k(2))
      then show False using notin AB(2) d by simp
    qed
    moreover have "e \<in> set A" using e AB(2) by simp
    ultimately have "\<not> ?Q (?g e)" by (auto simp: filter_empty_conv)
    then have "count_list es e \<noteq> count_list es d" by (simp add: k(2) d)
    with le [of e] show ?thesis by simp
  qed
qed

subsection \<open>The aggregator\<close>

lemma archetype_eq:
  "archetype (psych_profile (generatePsychologicalProfile userName now as dataConsent)) =
     decisionList (archetypeRules as) ''The Balanced Explorer''"
  by (simp add: generatePsychologicalProfile_def classifyArchetype_def archetypeRules_def
      toneRules_def)

lemma js_gt_mono: "js_gt v t \<Longrightarrow> t' \<le> t \<Longrightarrow> js_gt v t'"
  by (cases v) auto

section \<open>The claims\<close>

subsection \<open>C1: the aggregator on an empty session\<close>

text \<open>
  Claim C1 says that the aggregation of an empty answer sequence signals a contract
  violation. The function has no statement that throws: on the empty array every mean is
  \<open>0 / 0\<close>, every comparison with it is false, the expression
  \<open>sorted[0]?.[0] || 'neutral'\<close> supplies the dominant emotion, and a profile is
  returned. The counterexample evaluates the function on the empty session.
\<close>

theorem empty_session_counterexample:
  "generatePsychologicalProfile ''Ada'' ''2025-07-02T23:04:19.000Z'' [] False =
     \<lparr>name = ''Ada'',
      psych_profile =
        \<lparr>archetype = ''The Philosophical Observer'',
         core_traits = [],
         motivational_type = ''wisdom-seeking observer'',
         shadow_traits = [],
         emotion_profile = ''neutral dominant with moderate authenticity'',
         honesty_index = NaN,
         communication_mode = ''analytical and reserved'',
         tone_signature = ''concise, measured'',
         response_patterns =
           \<lparr>avg_word_count = NaN, avg_response_time = NaN, emotional_range = 0,
            dominant_emotion = ''neutral''\<rparr>\<rparr>,
      answers = [],
      data_consent = False,
      session_completed_at = ''2025-07-02T23:04:19.000Z''\<rparr>"
  by (simp add: generatePsychologicalProfile_def classifyArchetype_def coreTraits_def
      shadowTraits_def dominantEmotion_def sortByCount_def emotionCounts_def totalWords_def
      avgResponseTime_def avgAuthenticity_def avgConfidence_def avgVerbosity_def
      avgHesitation_def js_div_def)

text \<open>
  C1 as amended: for every user name, clock reading and consent flag, the aggregation of
  the empty answer sequence returns, without any error, the profile whose archetype is
  'The Philosophical Observer', whose dominant emotion is 'neutral', whose trait lists are
  empty and whose averages are \<open>NaN\<close>.
\<close>

theorem empty_session_returns_default_profile:
  "generatePsychologicalProfile userName now [] dataConsent =
     \<lparr>name = userName,
      psych_profile =
        \<lparr>archetype = ''The Philosophical Observer'',
         core_traits = [],
         motivational_type = ''wisdom-seeking observer'',
         shadow_traits = [],
         emotion_profile = ''neutral dominant with moderate authenticity'',
         honesty_index = NaN,
         communication_mode = ''analytical and reserved'',
         tone_signature = ''concise, measured'',
         response_patterns =
           \<lparr>avg_word_count = NaN, avg_response_time = NaN, emotional_range = 0,
            dominant_emotion = ''neutral''\<rparr>\<rparr>,
      answers = [],
      data_consent = dataConsent,
      session_completed_at = now\<rparr>"
  by (simp add: generatePsychologicalProfile_def classifyArchetype_def coreTraits_def
      shadowTraits_def dominantEmotion_def sortByCount_def emotionCounts_def totalWords_def
      avgResponseTime_def avgAuthenticity_def avgConfidence_def avgVerbosity_def
      avgHesitation_def js_div_def)

subsection \<open>C2: repeated aggregation\<close>

text \<open>
  Claim C2 says that two calls on the same answers return identical output. The returned
  object holds \<open>session_completed_at: new Date().toISOString()\<close>, so two calls at
  different clock readings differ.
\<close>

theorem repeated_call_counterexample:
  "generatePsychologicalProfile ''Ada'' ''2025-07-02T23:04:19.000Z''
      [submittedAnswer 1 ''What gives your life meaning right now?'' 12 ''I am fine today''] True
   \<noteq> generatePsychologicalProfile ''Ada'' ''2025-07-02T23:04:20.000Z''
      [submittedAnswer 1 ''What gives your life meaning right now?'' 12 ''I am fine today''] True"
  by (simp add: generatePsychologicalProfile_def)

text \<open>
  C2 as amended: for a fixed user name, answer list and consent flag, two calls of the
  aggregation return outputs that agree in every field except \<open>session_completed_at\<close>,
  which is the clock reading of the call.
\<close>

theorem profile_deterministic_up_to_timestamp:
  "generatePsychologicalProfile userName now as dataConsent =
     (generatePsychologicalProfile userName now' as dataConsent)\<lparr>session_completed_at := now\<rparr>
   \<and> session_completed_at (generatePsychologicalProfile userName now as dataConsent) = now"
  by (simp add: generatePsychologicalProfile_def)

subsection \<open>C3: emotion detection\<close>

text \<open>
  Claim C3 says that ties between emotions of maximal match count resolve to 'neutral'.
  The loop replaces its candidate only on a strictly greater count, so of several
  emotions with the maximal count the one that comes first in the table is returned: the
  answer "happy sad" matches one keyword of joy and one of sadness and is labelled 'joy'.
\<close>

theorem emotion_tie_counterexample:
  "keywordMatches (responseWords ''happy sad'') (snd (emotionKeywords ! 0)) = 1
   \<and> keywordMatches (responseWords ''happy sad'') (snd (emotionKeywords ! 1)) = 1
   \<and> map (\<lambda>x. keywordMatches (responseWords ''happy sad'') (snd x)) emotionKeywords
        = [1, 1, 0, 0, 0, 0, 0]
   \<and> emotion (analyzeResponse ''happy sad'') = ''joy''
   \<and> emotion (analyzeResponse ''happy sad'') \<noteq> ''neutral''"
  by code_simp

text \<open>
  C3 as amended, for the analyzers of the psychological and the enhanced questionnaire:
  when no keyword of any emotion matches, the label is 'neutral'; otherwise the label is
  the first emotion, in the order of the keyword table, whose match count is maximal. So
  an emotion with the strictly greatest count is returned, and a tie between maximal
  counts goes to the emotion that comes first in the table.
\<close>

theorem emotion_first_maximal:
  "((\<forall>x\<in>set emotionKeywords. keywordMatches (responseWords s) (snd x) = 0)
      \<longrightarrow> emotion (analyzeResponse s) = ''neutral'')
   \<and> (emotionKeywords = pre @ (e, k) # post
        \<and> 0 < keywordMatches (responseWords s) k
        \<and> (\<forall>x\<in>set pre. keywordMatches (responseWords s) (snd x) < keywordMatches (responseWords s) k)
        \<and> (\<forall>x\<in>set post. keywordMatches (responseWords s) (snd x) \<le> keywordMatches (responseWords s) k)
      \<longrightarrow> emotion (analyzeResponse s) = e)
   \<and> ((\<forall>x\<in>set emotionKeywords_Enhanced. keywordMatches (responseWords s) (snd x) = 0)
      \<longrightarrow> emotion (analyzeResponse_Enhanced s) = ''neutral'')
   \<and> (emotionKeywords_Enhanced = pre' @ (e', k') # post'
        \<and> 0 < keywordMatches (responseWords s) k'
        \<and> (\<forall>x\<in>set pre'. keywordMatches (responseWords s) (snd x) < keywordMatches (responseWords s) k')
        \<and> (\<forall>x\<in>set post'. keywordMatches (responseWords s) (snd x) \<le> keywordMatches (responseWords s) k')
      \<longrightarrow> emotion (analyzeResponse_Enhanced s) = e')"
  unfolding emotion_analyzeResponse emotion_analyzeResponse_Enhanced
  using detectEmotion_zero [of emotionKeywords "responseWords s"]
    detectEmotion_zero [of emotionKeywords_Enhanced "responseWords s"]
    detectEmotion_first_max [of emotionKeywords pre e k post "responseWords s"]
    detectEmotion_first_max [of emotionKeywords_Enhanced pre' e' k' post' "responseWords s"]
  by blast

theorem emotion_first_maximal_witness:
  "emotion (analyzeResponse ''so sad and lonely but happy'') = ''sadness''
   \<and> emotion (analyzeResponse_Enhanced ''happy sad'') = ''joy''
   \<and> emotion (analyzeResponse ''12345'') = ''neutral''
   \<and> emotion (analyzeResponse_Enhanced ''12345'') = ''neutral''"
proof -
  let ?s = "''so sad and lonely but happy''"
  let ?k = "[''sad'', ''disappointed'', ''hurt'', ''lonely'', ''depressed'', ''down'',
             ''melancholy'', ''grief'']"
  let ?pre = "take 1 emotionKeywords"
  let ?post = "drop 2 emotionKeywords"
  have a1: "emotionKeywords = ?pre @ (''sadness'', ?k) # ?post"
    by (simp add: emotionKeywords_def)
  have a2: "0 < keywordMatches (responseWords ?s) ?k" by code_simp
  have a3: "\<forall>x\<in>set ?pre. keywordMatches (responseWords ?s) (snd x) < keywordMatches (responseWords ?s) ?k"
    by code_simp
  have a4: "\<forall>x\<in>set ?post. keywordMatches (responseWords ?s) (snd x) \<le> keywordMatches (responseWords ?s) ?k"
    by code_simp
  have 1: "emotion (analyzeResponse ?s) = ''sadness''"
    using emotion_first_maximal [of ?s ?pre "''sadness''" ?k ?post] a1 a2 a3 a4 by blast
  let ?t = "''happy sad''"
  let ?k' = "[''happy'', ''excited'', ''love'', ''amazing'', ''wonderful'', ''great'',
              ''fantastic'', ''joy'', ''delighted'', ''thrilled'', ''passionate'']"
  let ?post' = "drop 1 emotionKeywords_Enhanced"
  have b1: "emotionKeywords_Enhanced = [] @ (''joy'', ?k') # ?post'"
    by (simp add: emotionKeywords_Enhanced_def)
  have b2: "0 < keywordMatches (responseWords ?t) ?k'" by code_simp
  have b3: "\<forall>x\<in>set []. keywordMatches (responseWords ?t) (snd x) < keywordMatches (responseWords ?t) ?k'"
    by simp
  have b4: "\<forall>x\<in>set ?post'. keywordMatches (responseWords ?t) (snd x) \<le> keywordMatches (responseWords ?t) ?k'"
    by code_simp
  have 2: "emotion (analyzeResponse_Enhanced ?t) = ''joy''"
    using emotion_first_maximal [of ?t _ _ _ _ "[]" "''joy''" ?k' ?post'] b1 b2 b3 b4 by blast
  have c1: "\<forall>x\<in>set emotionKeywords. keywordMatches (responseWords ''12345'') (snd x) = 0"
    by code_simp
  have c2: "\<forall>x\<in>set emotionKeywords_Enhanced. keywordMatches (responseWords ''12345'') (snd x) = 0"
    by code_simp
  have 3: "emotion (analyzeResponse ''12345'') = ''neutral''"
    and 4: "emotion (analyzeResponse_Enhanced ''12345'') = ''neutral''"
    using emotion_first_maximal [of "''12345''"] c1 c2 by blast+
  from 1 2 3 4 show ?thesis by (intro conjI)
qed

subsection \<open>C4: the dominant emotion\<close>

text \<open>
  Claim C4: for a non-empty session whose emotion labels belong to the closed label set,
  the dominant emotion of the profile is a label of the session with the greatest number
  of occurrences, and every label met before its first occurrence occurs strictly less
  often (ties go to the label met first). A session with the emotions joy, sadness, joy
  has the dominant emotion 'joy', and so has a session with the emotions joy, sadness.
\<close>

theorem dominant_emotion_most_frequent_first_seen:
  "(as \<noteq> [] \<and> (\<forall>a\<in>set as. emotionDetected a \<in> set emotionLabels) \<longrightarrow>
      dominant_emotion (response_patterns (psych_profile
          (generatePsychologicalProfile userName now as dataConsent))) = dominantEmotion as
      \<and> dominantEmotion as \<in> set (map emotionDetected as)
      \<and> (\<forall>e. count_list (map emotionDetected as) e
               \<le> count_list (map emotionDetected as) (dominantEmotion as))
      \<and> (\<forall>e\<in>set (takeWhile (\<lambda>x. x \<noteq> dominantEmotion as) (map emotionDetected as)).
            count_list (map emotionDetected as) e
              < count_list (map emotionDetected as) (dominantEmotion as)))
   \<and> (map emotionDetected as3 = [''joy'', ''sadness'', ''joy''] \<longrightarrow> dominantEmotion as3 = ''joy'')
   \<and> (map emotionDetected as2 = [''joy'', ''sadness''] \<longrightarrow> dominantEmotion as2 = ''joy'')"
proof -
  have general: "dominantEmotion as \<in> set (map emotionDetected as)
      \<and> (\<forall>e. count_list (map emotionDetected as) e
               \<le> count_list (map emotionDetected as) (dominantEmotion as))
      \<and> (\<forall>e\<in>set (takeWhile (\<lambda>x. x \<noteq> dominantEmotion as) (map emotionDetected as)).
            count_list (map emotionDetected as) e
              < count_list (map emotionDetected as) (dominantEmotion as))"
    if ne: "as \<noteq> []" and labels: "\<forall>a\<in>set as. emotionDetected a \<in> set emotionLabels"
  proof -
    have "[] \<notin> set emotionLabels" by (simp add: emotionLabels_def)
    with labels have "[] \<notin> emotionDetected ` set as" by force
    from dominantEmotion_first_most_frequent [OF ne this] show ?thesis by blast
  qed
  have field: "dominant_emotion (response_patterns (psych_profile
          (generatePsychologicalProfile userName now as dataConsent))) = dominantEmotion as"
    by (simp add: generatePsychologicalProfile_def)
  have three: "dominantEmotion as3 = ''joy''" if "map emotionDetected as3 = [''joy'', ''sadness'', ''joy'']"
    by (simp add: dominantEmotion_def emotionCounts_def that sortByCount_def)
  have two: "dominantEmotion as2 = ''joy''" if "map emotionDetected as2 = [''joy'', ''sadness'']"
    by (simp add: dominantEmotion_def emotionCounts_def that sortByCount_def)
  from general field three two show ?thesis by blast
qed

theorem dominant_emotion_most_frequent_first_seen_witness:
  "dominantEmotion [submittedAnswer 1 ''q1'' 5 ''happy'', submittedAnswer 2 ''q2'' 7 ''sad'',
                    submittedAnswer 3 ''q3'' 4 ''joy''] = ''joy''
   \<and> dominantEmotion [submittedAnswer 1 ''q1'' 5 ''happy'', submittedAnswer 2 ''q2'' 7 ''sad''] = ''joy''
   \<and> dominant_emotion (response_patterns (psych_profile
        (generatePsychologicalProfile ''Ada'' ''2025-07-02T23:04:19.000Z''
           [submittedAnswer 1 ''q1'' 5 ''happy'', submittedAnswer 2 ''q2'' 7 ''sad''] True))) = ''joy''"
proof -
  let ?s3 = "[submittedAnswer 1 ''q1'' 5 ''happy'', submittedAnswer 2 ''q2'' 7 ''sad'',
              submittedAnswer 3 ''q3'' 4 ''joy'']"
  let ?s2 = "[submittedAnswer 1 ''q1'' 5 ''happy'', submittedAnswer 2 ''q2'' 7 ''sad'']"
  have h1: "?s2 \<noteq> []" by simp
  have h2: "\<forall>a\<in>set ?s2. emotionDetected a \<in> set emotionLabels" by code_simp
  have h3: "map emotionDetected ?s3 = [''joy'', ''sadness'', ''joy'']" by code_simp
  have h4: "map emotionDetected ?s2 = [''joy'', ''sadness'']" by code_simp
  from dominant_emotion_most_frequent_first_seen
    [of ?s2 "''Ada''" "''2025-07-02T23:04:19.000Z''" True ?s3 ?s2] h1 h2 h3 h4
  have "dominantEmotion ?s3 = ''joy''" and "dominantEmotion ?s2 = ''joy''"
    and "dominant_emotion (response_patterns (psych_profile
        (generatePsychologicalProfile ''Ada'' ''2025-07-02T23:04:19.000Z'' ?s2 True)))
         = dominantEmotion ?s2"
    by blast+
  then show ?thesis by simp
qed

subsection \<open>C5: the analyzers are total and well-formed\<close>

text \<open>
  Claim C5: for every input string, the empty string and strings without letters
  included, each analyzer returns a result whose emotion belongs to the fixed label set
  and whose five tone fields lie between 0 and 1. The analyzers contain no statement
  that throws, and the divisor of \<open>analyzeUserResponse\<close> is the length of a
  non-empty array.
\<close>

theorem analyzers_total_well_formed:
  "wellFormed (analyzeResponse s) \<and> wellFormed (analyzeResponse_Enhanced s)
   \<and> wellFormed (analyzeUserResponse s)"
proof -
  have 1: "wellFormed (analyzeResponse s)"
    using analyzeWords_unit [of "responseWords s"] detect_in_labels [OF labels_PQ, of "responseWords s"]
    by (simp add: wellFormed_def unitTone_def emotion_analyzeResponse) (simp add: analyzeResponse_def)
  have 2: "wellFormed (analyzeResponse_Enhanced s)"
    using analyzeWords_Enhanced_unit [of "responseWords s"]
      detect_in_labels [OF labels_Enh, of "responseWords s"]
    by (simp add: wellFormed_def unitTone_def emotion_analyzeResponse_Enhanced)
       (simp add: analyzeResponse_Enhanced_def)
  have 3: "wellFormed (analyzeUserResponse s)"
    using analyzeUserWords_unit [OF splitSpace_nonempty, of "toLowerCase s"]
      detect_in_labels [OF labels_AI, of "splitSpace (toLowerCase s)"]
    by (simp add: wellFormed_def unitTone_def emotion_analyzeUserResponse)
       (simp add: analyzeUserResponse_def)
  from 1 2 3 show ?thesis by simp
qed

theorem analyzers_total_well_formed_witness:
  "wellFormed (analyzeResponse '''') \<and> wellFormed (analyzeResponse_Enhanced ''12 + 34 = ?!'')
   \<and> wellFormed (analyzeUserResponse '''')
   \<and> emotion (analyzeUserResponse '''') = ''neutral''
   \<and> energy (tone (analyzeUserResponse '''')) = 0"
proof -
  have "emotion (analyzeUserResponse '''') = ''neutral'' \<and> energy (tone (analyzeUserResponse '''')) = 0"
    by code_simp
  then show ?thesis
    using analyzers_total_well_formed [of "''''"] analyzers_total_well_formed [of "''12 + 34 = ?!''"]
    by simp
qed

subsection \<open>C6: confidence and verbosity grow with the word count\<close>

text \<open>
  Claim C6: for two strings with wordCount(s1) < wordCount(s2) \<le> 15 the returned
  confidence of s1 is at most that of s2, and for wordCount(s1) < wordCount(s2) \<le> 30
  the returned verbosity of s1 is at most that of s2, in both questionnaire analyzers.
\<close>

theorem confidence_verbosity_monotone:
  "(length (responseWords s1) < length (responseWords s2) \<and> length (responseWords s2) \<le> 15
      \<longrightarrow> confidence (tone (analyzeResponse s1)) \<le> confidence (tone (analyzeResponse s2))
        \<and> confidence (tone (analyzeResponse_Enhanced s1))
            \<le> confidence (tone (analyzeResponse_Enhanced s2)))
   \<and> (length (responseWords s1) < length (responseWords s2) \<and> length (responseWords s2) \<le> 30
      \<longrightarrow> verbosity (tone (analyzeResponse s1)) \<le> verbosity (tone (analyzeResponse s2))
        \<and> verbosity (tone (analyzeResponse_Enhanced s1))
            \<le> verbosity (tone (analyzeResponse_Enhanced s2)))"
proof -
  have "confidence (tone (analyzeResponse s1)) \<le> confidence (tone (analyzeResponse s2))
        \<and> confidence (tone (analyzeResponse_Enhanced s1))
            \<le> confidence (tone (analyzeResponse_Enhanced s2))
        \<and> verbosity (tone (analyzeResponse s1)) \<le> verbosity (tone (analyzeResponse s2))
        \<and> verbosity (tone (analyzeResponse_Enhanced s1))
            \<le> verbosity (tone (analyzeResponse_Enhanced s2))"
    if "length (responseWords s1) < length (responseWords s2)"
    unfolding confidence_analyzeResponse
    using that by (intro conjI capped_ratio_mono) simp_all
  then show ?thesis by blast
qed

theorem confidence_verbosity_monotone_witness:
  "length (responseWords ''I am fine'') < length (responseWords ''I am fine today'')
   \<and> length (responseWords ''I am fine today'') \<le> 15
   \<and> confidence (tone (analyzeResponse ''I am fine'')) \<le> confidence (tone (analyzeResponse ''I am fine today''))
   \<and> verbosity (tone (analyzeResponse_Enhanced ''I am fine''))
        \<le> verbosity (tone (analyzeResponse_Enhanced ''I am fine today''))"
proof -
  have h: "length (responseWords ''I am fine'') < length (responseWords ''I am fine today'')
    \<and> length (responseWords ''I am fine today'') \<le> 15"
    by code_simp
  then show ?thesis
    using confidence_verbosity_monotone [of "''I am fine''" "''I am fine today''"] by simp
qed

subsection \<open>C7: the archetype classification\<close>

text \<open>
  Claim C7 says that the archetype rules are thresholds on the mean tone metrics and
  that a session whose mean tone metrics satisfy none of them gets the default archetype.
  The chain has a fourth rule, on the dominant emotion: the one-answer session
  "I am fine today" satisfies none of the three threshold rules, its dominant emotion is
  'neutral', and its archetype is 'The Philosophical Observer'.
\<close>

theorem archetype_tone_rules_counterexample:
  "map fst (toneRules [submittedAnswer 1 ''What gives your life meaning right now?'' 12 ''I am fine today''])
     = [False, False, False]
   \<and> archetype (psych_profile (generatePsychologicalProfile ''Ada'' ''2025-07-02T23:04:19.000Z''
       [submittedAnswer 1 ''What gives your life meaning right now?'' 12 ''I am fine today''] True))
     = ''The Philosophical Observer''"
  by code_simp

text \<open>
  C7 as amended: the archetype is the result of the ordered decision list of the three
  threshold rules on the mean tone metrics followed by the rule that the dominant emotion
  is 'contemplative' or 'neutral', the first matching rule winning; when none of the four
  rules matches, the archetype is the default 'The Balanced Explorer'.
\<close>

theorem archetype_decision_list:
  "archetype (psych_profile (generatePsychologicalProfile userName now as dataConsent)) =
     decisionList (archetypeRules as) ''The Balanced Explorer''
   \<and> ((\<forall>r\<in>set (archetypeRules as). \<not> fst r) \<longrightarrow>
        archetype (psych_profile (generatePsychologicalProfile userName now as dataConsent)) =
          ''The Balanced Explorer'')"
proof -
  have "decisionList rules d = d" if "\<forall>r\<in>set rules. \<not> fst r" for rules :: "(bool \<times> string) list" and d
    using that by (induction rules) auto
  then show ?thesis by (simp add: archetype_eq)
qed

theorem archetype_decision_list_witness:
  "map fst (archetypeRules [submittedAnswer 1 ''q'' 12 ''happy sad'']) = [False, False, False, False]
   \<and> archetype (psych_profile (generatePsychologicalProfile ''Ada'' ''2025-07-02T23:04:19.000Z''
       [submittedAnswer 1 ''q'' 12 ''happy sad''] True)) = ''The Balanced Explorer''"
proof -
  have h: "\<forall>r\<in>set (archetypeRules [submittedAnswer 1 ''q'' 12 ''happy sad'']). \<not> fst r"
    by code_simp
  have m: "map fst (archetypeRules [submittedAnswer 1 ''q'' 12 ''happy sad'']) = [False, False, False, False]"
    by code_simp
  from h archetype_decision_list [of "''Ada''" "''2025-07-02T23:04:19.000Z''"
        "[submittedAnswer 1 ''q'' 12 ''happy sad'']" True]
  have "archetype (psych_profile (generatePsychologicalProfile ''Ada'' ''2025-07-02T23:04:19.000Z''
       [submittedAnswer 1 ''q'' 12 ''happy sad''] True)) = ''The Balanced Explorer''"
    by blast
  with m show ?thesis by (intro conjI)
qed

subsection \<open>C8: the floor of the authenticity\<close>

text \<open>
  Claim C8 says that both questionnaire analyzers return the authenticity 0.3 on the
  empty string. The analyzer of the psychological questionnaire computes
  \<open>max(0.3, 1 - 0 + 0 - 0)\<close> there and returns 1.
\<close>

theorem empty_answer_authenticity_counterexample:
  "authenticity (tone (analyzeResponse '''')) = 1
   \<and> authenticity (tone (analyzeResponse '''')) \<noteq> 3 / 10"
  by code_simp

text \<open>
  C8 as amended: the authenticity returned by either questionnaire analyzer is at least
  0.3 for every input string; on the empty string both return the emotion 'neutral' and
  confidence, energy, verbosity and hesitation 0, with the authenticity 0.3 in the
  enhanced questionnaire and 1 in the psychological questionnaire.
\<close>

theorem authenticity_floor_and_empty_answer:
  "3 / 10 \<le> authenticity (tone (analyzeResponse s))
   \<and> 3 / 10 \<le> authenticity (tone (analyzeResponse_Enhanced s))
   \<and> analyzeResponse_Enhanced '''' =
       \<lparr>emotion = ''neutral'',
        tone = \<lparr>confidence = 0, energy = 0, verbosity = 0, hesitation = 0, authenticity = 3 / 10\<rparr>\<rparr>
   \<and> analyzeResponse '''' =
       \<lparr>emotion = ''neutral'',
        tone = \<lparr>confidence = 0, energy = 0, verbosity = 0, hesitation = 0, authenticity = 1\<rparr>\<rparr>"
proof -
  have 1: "3 / 10 \<le> authenticity (tone (analyzeResponse s))"
    unfolding analyzeResponse_def analyzeWords_def Let_def
    by (simp only: analysis.select_convs toneVector.select_convs)
       (rule authenticity_floor, rule max.cobounded1)
  have 2: "3 / 10 \<le> authenticity (tone (analyzeResponse_Enhanced s))"
    unfolding analyzeResponse_Enhanced_def analyzeWords_Enhanced_def Let_def
    by (simp only: analysis.select_convs toneVector.select_convs)
       (rule authenticity_floor, rule max.cobounded1)
  have 3: "analyzeResponse_Enhanced '''' =
       \<lparr>emotion = ''neutral'',
        tone = \<lparr>confidence = 0, energy = 0, verbosity = 0, hesitation = 0, authenticity = 3 / 10\<rparr>\<rparr>"
    by code_simp
  have 4: "analyzeResponse '''' =
       \<lparr>emotion = ''neutral'',
        tone = \<lparr>confidence = 0, energy = 0, verbosity = 0, hesitation = 0, authenticity = 1\<rparr>\<rparr>"
    by code_simp
  from 1 2 3 4 show ?thesis by simp
qed

subsection \<open>C9: completion of a psychology session\<close>

text \<open>
  Claim C9: \<open>isComplete\<close> holds exactly when the number of recorded responses is
  at least the minimum of 8 and the number of loaded questions; so a session with fewer
  than 8 questions is complete once every question is answered.
\<close>

theorem isComplete_threshold:
  "(isComplete s \<longleftrightarrow> min 8 (length (questions s)) \<le> length (responses s))
   \<and> (length (questions s) < 8 \<and> length (responses s) = length (questions s) \<longrightarrow> isComplete s)"
  by (simp add: isComplete_def)

theorem isComplete_threshold_witness:
  "length (questions \<lparr>questions = [1, 2, 3], responses = [''a'', ''b'', ''c'']\<rparr>) < 8
   \<and> length (responses \<lparr>questions = [1, 2, 3], responses = [''a'', ''b'', ''c'']\<rparr>)
       = length (questions \<lparr>questions = [1, 2, 3], responses = [''a'', ''b'', ''c'']\<rparr>)
   \<and> isComplete \<lparr>questions = [1, 2, 3], responses = [''a'', ''b'', ''c'']\<rparr>"
  using isComplete_threshold [of "\<lparr>questions = [1, 2, 3], responses = [''a'', ''b'', ''c'']\<rparr>"]
  by simp

subsection \<open>C10: overthinking implies thoughtful\<close>

text \<open>
  Claim C10: in every profile returned by the aggregator, if the shadow trait
  'tendency to overthink' is included then the core trait 'thoughtful' is included.
\<close>

theorem overthink_implies_thoughtful:
  "''tendency to overthink'' \<in> set (shadow_traits (psych_profile (generatePsychologicalProfile userName now as dataConsent)))
   \<Longrightarrow> ''thoughtful'' \<in> set (core_traits (psych_profile (generatePsychologicalProfile userName now as dataConsent)))"
proof -
  assume a: "''tendency to overthink'' \<in> set (shadow_traits (psych_profile (generatePsychologicalProfile userName now as dataConsent)))"
  have "js_gt (avgHesitation as) (5 / 10)"
  proof (rule ccontr)
    assume "\<not> js_gt (avgHesitation as) (5 / 10)"
    with a show False
      by (simp add: generatePsychologicalProfile_def shadowTraits_def split: if_splits)
  qed
  then have "js_gt (avgHesitation as) (4 / 10)"
    by (rule js_gt_mono) simp
  then show ?thesis
    by (simp add: generatePsychologicalProfile_def coreTraits_def)
qed

theorem overthink_implies_thoughtful_witness:
  "''tendency to overthink'' \<in> set (shadow_traits (psych_profile
      (generatePsychologicalProfile ''Ada'' ''2025-07-02T23:04:19.000Z''
         [submittedAnswer 1 ''q1'' 5 ''maybe perhaps''] True)))
   \<and> ''thoughtful'' \<in> set (core_traits (psych_profile
      (generatePsychologicalProfile ''Ada'' ''2025-07-02T23:04:19.000Z''
         [submittedAnswer 1 ''q1'' 5 ''maybe perhaps''] True)))"
proof -
  have h: "''tendency to overthink'' \<in> set (shadow_traits (psych_profile
      (generatePsychologicalProfile ''Ada'' ''2025-07-02T23:04:19.000Z''
         [submittedAnswer 1 ''q1'' 5 ''maybe perhaps''] True)))"
    by code_simp
  from h overthink_implies_thoughtful [OF h] show ?thesis by (intro conjI)
qed

end
